theory Spec2Isabelle
  imports Main "HOL-Library.Sublist" "HOL-Library.AList"
begin

section \<open>The session coordinator of cast (src/session.ts)\<close>

text \<open>
  \<^verbatim>\<open>CastSession\<close> is a Durable Object: one instance per session, whose handlers
  (\<^verbatim>\<open>fetch\<close>, \<^verbatim>\<open>webSocketMessage\<close>, \<^verbatim>\<open>webSocketClose\<close>, \<^verbatim>\<open>webSocketError\<close>) run one at
  a time. Each handler is a function from the state of the instance to the new state and
  what the handler returns. What a handler reads from outside the instance (the platform's
  identifiers, the clock, the answer of the SFU to an HTTP call) is a parameter, the
  record \<open>env\<close>.
\<close>

subsection \<open>JSON values\<close>

text \<open>
  A text that goes over the wire as JSON is represented by the value it denotes:
  \<^verbatim>\<open>JSON.parse\<close> of a text that is not JSON is \<open>None\<close>, and \<^verbatim>\<open>JSON.stringify\<close>
  leaves out a property whose value is \<^verbatim>\<open>undefined\<close> (\<open>opt\<close> below).
\<close>

datatype json =
    JNull
  | JBool bool
  | JNum int
  | JStr string
  | JArr "json list"
  | JObj "(string \<times> json) list"

text \<open>JavaScript's truthiness, on the values JSON has.\<close>

fun truthy :: "json \<Rightarrow> bool" where
  "truthy JNull = False"
| "truthy (JBool b) = b"
| "truthy (JNum n) = (n \<noteq> 0)"
| "truthy (JStr s) = (s \<noteq> [])"
| "truthy (JArr xs) = True"
| "truthy (JObj kvs) = True"

text \<open>
  \<^verbatim>\<open>v.k\<close> for a value \<open>v\<close> that is not \<^verbatim>\<open>null\<close> (on \<^verbatim>\<open>null\<close> JavaScript throws, which
  the callers check first): \<open>None\<close> is \<^verbatim>\<open>undefined\<close>.
\<close>

fun field :: "json \<Rightarrow> string \<Rightarrow> json option" where
  "field (JObj kvs) k = map_of kvs k"
| "field v k = None"

text \<open>
  A property read at the type \<^verbatim>\<open>string | undefined\<close>, which is what \<^verbatim>\<open>SessionData\<close>
  declares for \<^verbatim>\<open>callsSessionId\<close>: a value that is not a string is outside that type and
  is read as \<^verbatim>\<open>undefined\<close>.
\<close>

fun asString :: "json option \<Rightarrow> string option" where
  "asString (Some (JStr s)) = Some s"
| "asString v = None"

definition opt :: "string \<Rightarrow> json option \<Rightarrow> (string \<times> json) list" where
  "opt k v = (case v of None \<Rightarrow> [] | Some x \<Rightarrow> [(k, x)])"

text \<open>\<^verbatim>\<open>if (x)\<close> for an optional string: absent and empty are both falsy.\<close>

definition present :: "string option \<Rightarrow> bool" where
  "present x = (case x of None \<Rightarrow> False | Some v \<Rightarrow> v \<noteq> [])"

definition endsWith :: "string \<Rightarrow> string \<Rightarrow> bool" where
  "endsWith s t = suffix t s"

subsection \<open>Data\<close>

record SessionData =
  sessionId :: string
  createdAt :: nat
  casterToken :: "string option"
  callsSessionId :: "string option"
  trackNames :: "string list option"

datatype ready_state = CONNECTING | OPEN | CLOSING | CLOSED

text \<open>
  The instance. A WebSocket is an object; here it is the number \<^verbatim>\<open>new WebSocketPair()\<close>
  gave it, with its \<^verbatim>\<open>readyState\<close> and the messages \<^verbatim>\<open>send\<close> gave it, in order.
  \<open>sessions\<close> is the \<^verbatim>\<open>Map\<close> of attached connections in insertion order, which is the
  order JavaScript iterates it in. \<open>storage\<close> is the value under the key
  \<^verbatim>\<open>"sessionData"\<close> of \<^verbatim>\<open>ctx.storage\<close> and \<open>writes\<close> the log of the calls of
  \<^verbatim>\<open>ctx.storage.put\<close>.
\<close>

record state =
  sessions :: "(nat \<times> string) list"
  sessionData :: "SessionData option"
  storage :: "SessionData option"
  writes :: "SessionData list"
  readyState :: "nat \<Rightarrow> ready_state"
  sent :: "nat \<Rightarrow> json list"
  nextSocket :: nat

text \<open>
  The body of a request as \<^verbatim>\<open>request.json()\<close> returns it, at the types the handlers
  declare for it: the properties that some handler reads. \<open>trackName\<close> is optional for
  pull-tracks only, which reads it as \<^verbatim>\<open>trackName || "*"\<close>, where an absent name and an
  empty one give the same.
\<close>

record request_body =
  body_callsSessionId :: string
  viewerSessionId :: string
  trackName :: string
  mid :: "string option"
  kind :: "string option"
  sessionDescription :: "json option"

text \<open>
  A request: the headers and the parts of the URL that \<^verbatim>\<open>fetch\<close> reads. \<open>payload\<close> is
  \<open>None\<close> when \<^verbatim>\<open>request.json()\<close> rejects (no body, or not JSON).
\<close>

record request =
  upgrade :: "string option"
  httpMethod :: string
  pathname :: string
  roleParam :: "string option"
  authorization :: "string option"
  payload :: "request_body option"

datatype response_body = NoBody | Text string | Json json

record response =
  status :: nat
  body :: response_body
  webSocket :: "nat option"

text \<open>A handler returns a response, or throws (its promise rejects).\<close>

datatype outcome = Returned response | Threw

definition textResponse :: "string \<Rightarrow> nat \<Rightarrow> response" where
  "textResponse t st = \<lparr>status = st, body = Text t, webSocket = None\<rparr>"

definition jsonResponse :: "json \<Rightarrow> response" where
  "jsonResponse v = \<lparr>status = 200, body = Json v, webSocket = None\<rparr>"

subsection \<open>The SFU, seen from the coordinator\<close>

record sfu_request =
  url :: string
  sfu_method :: string
  headers :: "(string \<times> string) list"
  sfu_body :: "json option"

text \<open>
  The global \<^verbatim>\<open>fetch\<close> rejects (\<open>NetworkError\<close>) or resolves to a response, of which
  the handlers read \<^verbatim>\<open>ok\<close>, \<^verbatim>\<open>text()\<close> and \<^verbatim>\<open>json()\<close> (\<open>None\<close> when the body is not
  JSON and \<^verbatim>\<open>json()\<close> rejects).
\<close>

datatype sfu_result = NetworkError | Upstream bool string "json option"

record env =
  CALLS_APP_ID :: string
  CALLS_APP_SECRET :: string
  ctxId :: string
  randomUUID :: string
  now :: nat
  upstream :: "sfu_request \<Rightarrow> sfu_result"

definition sessionsUrl :: "env \<Rightarrow> string \<Rightarrow> string" where
  "sessionsUrl e rest =
     ''https://rtc.live.cloudflare.com/v1/apps/'' @ CALLS_APP_ID e @ ''/sessions/'' @ rest"

definition secretHeader :: "env \<Rightarrow> string \<times> string" where
  "secretHeader e = (''Authorization'', ''Bearer '' @ CALLS_APP_SECRET e)"

definition jsonHeader :: "string \<times> string" where
  "jsonHeader = (''Content-Type'', ''application/json'')"

definition createSessionRequest :: "env \<Rightarrow> sfu_request" where
  "createSessionRequest e =
     \<lparr>url = sessionsUrl e ''new'', sfu_method = ''POST'',
      headers = [secretHeader e, jsonHeader], sfu_body = None\<rparr>"

definition initConnectionRequest :: "env \<Rightarrow> request_body \<Rightarrow> sfu_request" where
  "initConnectionRequest e b =
     \<lparr>url = sessionsUrl e (body_callsSessionId b @ ''/renegotiate''), sfu_method = ''PUT'',
      headers = [secretHeader e, jsonHeader],
      sfu_body = Some (JObj (opt ''sessionDescription'' (sessionDescription b)))\<rparr>"

definition renegotiateRequest :: "env \<Rightarrow> request_body \<Rightarrow> sfu_request" where
  "renegotiateRequest e b =
     \<lparr>url = sessionsUrl e (body_callsSessionId b @ ''/renegotiate''), sfu_method = ''PUT'',
      headers = [secretHeader e, jsonHeader],
      sfu_body = Some (case sessionDescription b of
          None \<Rightarrow> JObj []
        | Some sd \<Rightarrow> if truthy sd then JObj [(''sessionDescription'', sd)] else JObj [])\<rparr>"

definition addTrackRequest :: "env \<Rightarrow> request_body \<Rightarrow> sfu_request" where
  "addTrackRequest e b =
     \<lparr>url = sessionsUrl e (body_callsSessionId b @ ''/tracks/new''), sfu_method = ''POST'',
      headers = [secretHeader e, jsonHeader],
      sfu_body = Some (JObj (
        [(''tracks'', JArr [JObj (
            [(''location'', JStr ''local''), (''trackName'', JStr (trackName b))]
            @ (if present (mid b) then opt ''mid'' (map_option JStr (mid b)) else [])
            @ (if present (kind b) then opt ''kind'' (map_option JStr (kind b)) else []))])]
        @ (case sessionDescription b of
             None \<Rightarrow> []
           | Some sd \<Rightarrow> if truthy sd then [(''sessionDescription'', sd)] else [])))\<rparr>"

definition newSessionRequest :: "env \<Rightarrow> sfu_request" where
  "newSessionRequest e =
     \<lparr>url = sessionsUrl e ''new'', sfu_method = ''POST'',
      headers = [secretHeader e], sfu_body = None\<rparr>"

definition pullTracksRequest :: "env \<Rightarrow> string \<Rightarrow> request_body \<Rightarrow> sfu_request" where
  "pullTracksRequest e source b =
     \<lparr>url = sessionsUrl e (viewerSessionId b @ ''/tracks/new''), sfu_method = ''POST'',
      headers = [secretHeader e, jsonHeader],
      sfu_body = Some (JObj [(''tracks'', JArr [JObj
        [(''location'', JStr ''remote''), (''sessionId'', JStr source),
         (''trackName'', JStr (if trackName b = [] then ''*'' else trackName b))]])])\<rparr>"

definition viewerRenegotiateRequest :: "env \<Rightarrow> request_body \<Rightarrow> sfu_request" where
  "viewerRenegotiateRequest e b =
     (case sessionDescription b of
        None \<Rightarrow>
          \<lparr>url = sessionsUrl e (viewerSessionId b @ ''/renegotiate''), sfu_method = ''PUT'',
           headers = [secretHeader e], sfu_body = None\<rparr>
      | Some sd \<Rightarrow>
          if truthy sd then
            \<lparr>url = sessionsUrl e (viewerSessionId b @ ''/renegotiate''), sfu_method = ''PUT'',
             headers = [secretHeader e, jsonHeader],
             sfu_body = Some (JObj [(''sessionDescription'', sd)])\<rparr>
          else
            \<lparr>url = sessionsUrl e (viewerSessionId b @ ''/renegotiate''), sfu_method = ''PUT'',
             headers = [secretHeader e], sfu_body = None\<rparr>)"

definition sessionStateRequest :: "env \<Rightarrow> string \<Rightarrow> sfu_request" where
  "sessionStateRequest e sid =
     \<lparr>url = sessionsUrl e sid, sfu_method = ''GET'',
      headers = [secretHeader e], sfu_body = None\<rparr>"

subsection \<open>Storage, sockets and broadcast\<close>

text \<open>
  \<^verbatim>\<open>await this.ctx.storage.put("sessionData", this.sessionData)\<close>: the storage keeps a
  copy of the record as it is at the call. The write itself does not fail here.
\<close>

definition put :: "SessionData \<Rightarrow> state \<Rightarrow> state" where
  "put d s = s\<lparr>storage := Some d, writes := writes s @ [d]\<rparr>"

definition send :: "nat \<Rightarrow> json \<Rightarrow> state \<Rightarrow> state" where
  "send socket m s = s\<lparr>sent := (sent s)(socket := sent s socket @ [m])\<rparr>"

text \<open>
  \<^verbatim>\<open>for (const [socket] of this.sessions) if (socket.readyState === WebSocket.OPEN)
  socket.send(json)\<close>
\<close>

fun broadcastLoop :: "json \<Rightarrow> (nat \<times> string) list \<Rightarrow> state \<Rightarrow> state" where
  "broadcastLoop m [] s = s"
| "broadcastLoop m ((socket, role) # rest) s =
     broadcastLoop m rest (if readyState s socket = OPEN then send socket m s else s)"

definition broadcast :: "json \<Rightarrow> state \<Rightarrow> state" where
  "broadcast m s = broadcastLoop m (sessions s) s"

subsection \<open>The branches of fetch\<close>

text \<open>
  The template literal \<^verbatim>\<open>`Bearer ${this.sessionData.casterToken}`\<close>; a token that is
  \<^verbatim>\<open>undefined\<close> prints as the text \<^verbatim>\<open>undefined\<close>.
\<close>

definition bearer :: "string option \<Rightarrow> string" where
  "bearer tok = ''Bearer '' @ (case tok of None \<Rightarrow> ''undefined'' | Some t \<Rightarrow> t)"

definition unauthorizedResponse :: response where
  "unauthorizedResponse = textResponse ''Unauthorized'' 401"

text \<open>\<^verbatim>\<open>this.sessionData.trackNames || []\<close>\<close>

definition tracksOrEmpty :: "SessionData \<Rightarrow> string list" where
  "tracksOrEmpty d = (case trackNames d of None \<Rightarrow> [] | Some l \<Rightarrow> l)"

definition sessionDataMessage :: "SessionData \<Rightarrow> json" where
  "sessionDataMessage d =
     JObj [(''type'', JStr ''session-data''),
           (''data'', JObj ([(''sessionId'', JStr (sessionId d))]
              @ opt ''callsSessionId'' (map_option JStr (callsSessionId d))
              @ [(''trackNames'', JArr (map JStr (tracksOrEmpty d)))]))]"

text \<open>
  The WebSocket upgrade. The pair is new: its server end is open once accepted, and
  nothing has been sent on it. The response carries the client end of the same pair.
\<close>

definition upgradeBranch :: "request \<Rightarrow> state \<Rightarrow> outcome \<times> state" where
  "upgradeBranch r s =
     (let server = nextSocket s;
          role = (case roleParam r of
                    None \<Rightarrow> ''viewer''
                  | Some x \<Rightarrow> if x = [] then ''viewer'' else x);
          s1 = s\<lparr>nextSocket := Suc server,
                 readyState := (readyState s)(server := OPEN),
                 sent := (sent s)(server := [])\<rparr>;
          s2 = s1\<lparr>sessions := AList.update server role (sessions s1)\<rparr>;
          s3 = (case sessionData s2 of
                  None \<Rightarrow> s2
                | Some d \<Rightarrow> send server (sessionDataMessage d) s2)
      in (Returned \<lparr>status = 101, body = NoBody, webSocket = Some server\<rparr>, s3))"

definition initResponse :: "SessionData \<Rightarrow> response" where
  "initResponse d =
     jsonResponse (JObj ([(''sessionId'', JStr (sessionId d))]
        @ opt ''casterToken'' (map_option JStr (casterToken d))))"

definition initHandler :: "env \<Rightarrow> state \<Rightarrow> outcome \<times> state" where
  "initHandler e s =
     (case sessionData s of
        None \<Rightarrow>
          (let d = \<lparr>sessionId = take 8 (ctxId e), createdAt = now e,
                    casterToken = Some (randomUUID e), callsSessionId = None,
                    trackNames = None\<rparr>
           in (Returned (initResponse d), put d (s\<lparr>sessionData := Some d\<rparr>)))
      | Some d \<Rightarrow> (Returned (initResponse d), s))"

definition callsSessionHandler :: "request \<Rightarrow> env \<Rightarrow> state \<Rightarrow> outcome \<times> state" where
  "callsSessionHandler r e s =
     (case sessionData s of
        None \<Rightarrow> (Returned unauthorizedResponse, s)
      | Some d \<Rightarrow>
          if authorization r \<noteq> Some (bearer (casterToken d))
          then (Returned unauthorizedResponse, s)
          else (case upstream e (createSessionRequest e) of
            NetworkError \<Rightarrow> (Threw, s)
          | Upstream ok errorText parsed \<Rightarrow>
              if \<not> ok then (Returned (textResponse ''Failed to create Calls session'' 500), s)
              else (case parsed of
                None \<Rightarrow> (Threw, s)
              | Some callsData \<Rightarrow>
                  if callsData = JNull then (Threw, s)
                  else
                    (let d' = d\<lparr>callsSessionId := asString (field callsData ''sessionId'')\<rparr>;
                         s1 = put d' (s\<lparr>sessionData := Some d'\<rparr>);
                         s2 = broadcast (JObj ([(''type'', JStr ''calls-session-ready'')]
                                @ opt ''sessionId'' (field callsData ''sessionId''))) s1
                     in (Returned (jsonResponse (JObj (
                            opt ''sessionId'' (field callsData ''sessionId'')
                            @ opt ''sessionDescription''
                                (field callsData ''sessionDescription'')))), s2)))))"

text \<open>
  What six branches do with the SFU's answer: a failure is a 500 that quotes the SFU's
  text, a success is returned as it is.
\<close>

definition relayUpstream :: "string \<Rightarrow> sfu_result \<Rightarrow> state \<Rightarrow> outcome \<times> state" where
  "relayUpstream failure res s =
     (case res of
        NetworkError \<Rightarrow> (Threw, s)
      | Upstream ok errorText parsed \<Rightarrow>
          if \<not> ok then (Returned (textResponse (failure @ errorText) 500), s)
          else (case parsed of
                  None \<Rightarrow> (Threw, s)
                | Some v \<Rightarrow> (Returned (jsonResponse v), s)))"

definition initConnectionHandler :: "request \<Rightarrow> env \<Rightarrow> state \<Rightarrow> outcome \<times> state" where
  "initConnectionHandler r e s =
     (case sessionData s of
        None \<Rightarrow> (Returned unauthorizedResponse, s)
      | Some d \<Rightarrow>
          if authorization r \<noteq> Some (bearer (casterToken d))
          then (Returned unauthorizedResponse, s)
          else (case payload r of
            None \<Rightarrow> (Threw, s)
          | Some b \<Rightarrow>
              relayUpstream ''Failed to init connection: ''
                (upstream e (initConnectionRequest e b)) s))"

definition renegotiateHandler :: "request \<Rightarrow> env \<Rightarrow> state \<Rightarrow> outcome \<times> state" where
  "renegotiateHandler r e s =
     (case sessionData s of
        None \<Rightarrow> (Returned unauthorizedResponse, s)
      | Some d \<Rightarrow>
          if authorization r \<noteq> Some (bearer (casterToken d))
          then (Returned unauthorizedResponse, s)
          else (case payload r of
            None \<Rightarrow> (Threw, s)
          | Some b \<Rightarrow>
              relayUpstream ''Failed to renegotiate: ''
                (upstream e (renegotiateRequest e b)) s))"

definition trackAddedMessage :: "string \<Rightarrow> json" where
  "trackAddedMessage name = JObj [(''type'', JStr ''track-added''), (''trackName'', JStr name)]"

definition addTrackHandler :: "request \<Rightarrow> env \<Rightarrow> state \<Rightarrow> outcome \<times> state" where
  "addTrackHandler r e s =
     (case sessionData s of
        None \<Rightarrow> (Returned unauthorizedResponse, s)
      | Some d \<Rightarrow>
          if authorization r \<noteq> Some (bearer (casterToken d))
          then (Returned unauthorizedResponse, s)
          else (case payload r of
            None \<Rightarrow> (Threw, s)
          | Some b \<Rightarrow>
              (case upstream e (addTrackRequest e b) of
                 NetworkError \<Rightarrow> (Threw, s)
               | Upstream ok errorText parsed \<Rightarrow>
                   if \<not> ok
                   then (Returned (textResponse (''Failed to add track: '' @ errorText) 500), s)
                   else (case parsed of
                     None \<Rightarrow> (Threw, s)
                   | Some trackData \<Rightarrow>
                       (let names = (case trackNames d of None \<Rightarrow> [] | Some l \<Rightarrow> l);
                            names' = (if trackName b \<in> set names then names
                                      else names @ [trackName b]);
                            d' = d\<lparr>trackNames := Some names'\<rparr>;
                            s1 = put d' (s\<lparr>sessionData := Some d'\<rparr>);
                            s2 = broadcast (trackAddedMessage (trackName b)) s1
                        in (Returned (jsonResponse trackData), s2))))))"

definition newSessionHandler :: "env \<Rightarrow> state \<Rightarrow> outcome \<times> state" where
  "newSessionHandler e s =
     relayUpstream ''Failed to create new session: '' (upstream e (newSessionRequest e)) s"

definition pullTracksHandler :: "request \<Rightarrow> env \<Rightarrow> state \<Rightarrow> outcome \<times> state" where
  "pullTracksHandler r e s =
     (case payload r of
        None \<Rightarrow> (Threw, s)
      | Some b \<Rightarrow>
          (case sessionData s of
             None \<Rightarrow> (Returned (textResponse ''No active session'' 404), s)
           | Some d \<Rightarrow>
               (case callsSessionId d of
                  None \<Rightarrow> (Returned (textResponse ''No active session'' 404), s)
                | Some c \<Rightarrow>
                    if c = [] then (Returned (textResponse ''No active session'' 404), s)
                    else (case upstream e (pullTracksRequest e c b) of
                      NetworkError \<Rightarrow> (Threw, s)
                    | Upstream ok errorText parsed \<Rightarrow>
                        if \<not> ok
                        then (Returned (textResponse ''Failed to pull tracks'' 500), s)
                        else (case parsed of
                                None \<Rightarrow> (Threw, s)
                              | Some v \<Rightarrow> (Returned (jsonResponse v), s))))))"

definition viewerRenegotiateHandler :: "request \<Rightarrow> env \<Rightarrow> state \<Rightarrow> outcome \<times> state" where
  "viewerRenegotiateHandler r e s =
     (case payload r of
        None \<Rightarrow> (Threw, s)
      | Some b \<Rightarrow>
          relayUpstream ''Failed to renegotiate: ''
            (upstream e (viewerRenegotiateRequest e b)) s)"

definition trackRemovedMessage :: "string \<Rightarrow> json" where
  "trackRemovedMessage name =
     JObj [(''type'', JStr ''track-removed''), (''trackName'', JStr name)]"

definition removeTrackHandler :: "request \<Rightarrow> state \<Rightarrow> outcome \<times> state" where
  "removeTrackHandler r s =
     (case sessionData s of
        None \<Rightarrow> (Returned unauthorizedResponse, s)
      | Some d \<Rightarrow>
          if authorization r \<noteq> Some (bearer (casterToken d))
          then (Returned unauthorizedResponse, s)
          else (case payload r of
            None \<Rightarrow> (Threw, s)
          | Some b \<Rightarrow>
              (let s1 = (case trackNames d of
                           None \<Rightarrow> s
                         | Some l \<Rightarrow>
                             (let d' = d\<lparr>trackNames :=
                                          Some (filter (\<lambda>tn. tn \<noteq> trackName b) l)\<rparr>
                              in put d' (s\<lparr>sessionData := Some d'\<rparr>)));
                   s2 = broadcast (trackRemovedMessage (trackName b)) s1
               in (Returned (jsonResponse (JObj [(''success'', JBool True)])), s2))))"

definition notReady :: response where
  "notReady = jsonResponse (JObj [(''ready'', JBool False)])"

definition infoHandler :: "state \<Rightarrow> outcome \<times> state" where
  "infoHandler s =
     (case sessionData s of
        None \<Rightarrow> (Returned notReady, s)
      | Some d \<Rightarrow>
          (case callsSessionId d of
             None \<Rightarrow> (Returned notReady, s)
           | Some c \<Rightarrow>
               if c = [] then (Returned notReady, s)
               else (Returned (jsonResponse (JObj
                       [(''ready'', JBool True),
                        (''callsSessionId'', JStr c),
                        (''trackNames'', JArr (map JStr (tracksOrEmpty d)))])), s)))"

definition callsStateHandler :: "request \<Rightarrow> env \<Rightarrow> state \<Rightarrow> outcome \<times> state" where
  "callsStateHandler r e s =
     (case sessionData s of
        None \<Rightarrow> (Returned unauthorizedResponse, s)
      | Some d \<Rightarrow>
          if authorization r \<noteq> Some (bearer (casterToken d))
          then (Returned unauthorizedResponse, s)
          else (case callsSessionId d of
            None \<Rightarrow>
              (Returned (jsonResponse (JObj [(''error'', JStr ''No Calls session'')])), s)
          | Some c \<Rightarrow>
              if c = []
              then (Returned (jsonResponse (JObj [(''error'', JStr ''No Calls session'')])), s)
              else relayUpstream ''Failed to get state: ''
                     (upstream e (sessionStateRequest e c)) s))"

definition viewerCallsStateHandler :: "request \<Rightarrow> env \<Rightarrow> state \<Rightarrow> outcome \<times> state" where
  "viewerCallsStateHandler r e s =
     (case payload r of
        None \<Rightarrow> (Threw, s)
      | Some b \<Rightarrow>
          relayUpstream ''Failed to get state: ''
            (upstream e (sessionStateRequest e (viewerSessionId b))) s)"

subsection \<open>fetch\<close>

definition fetch :: "request \<Rightarrow> env \<Rightarrow> state \<Rightarrow> outcome \<times> state" where
  "fetch r e s =
     (if upgrade r = Some ''websocket'' then upgradeBranch r s
      else if httpMethod r = ''POST'' \<and> endsWith (pathname r) ''/init''
        then initHandler e s
      else if httpMethod r = ''POST'' \<and> endsWith (pathname r) ''/calls-session''
        then callsSessionHandler r e s
      else if httpMethod r = ''POST'' \<and> endsWith (pathname r) ''/init-connection''
        then initConnectionHandler r e s
      else if httpMethod r = ''POST'' \<and> endsWith (pathname r) ''/renegotiate''
        then renegotiateHandler r e s
      else if httpMethod r = ''POST'' \<and> endsWith (pathname r) ''/add-track''
        then addTrackHandler r e s
      else if httpMethod r = ''POST'' \<and> endsWith (pathname r) ''/new-session''
        then newSessionHandler e s
      else if httpMethod r = ''POST'' \<and> endsWith (pathname r) ''/pull-tracks''
        then pullTracksHandler r e s
      else if httpMethod r = ''POST'' \<and> endsWith (pathname r) ''/viewer-renegotiate''
        then viewerRenegotiateHandler r e s
      else if httpMethod r = ''POST'' \<and> endsWith (pathname r) ''/remove-track''
        then removeTrackHandler r s
      else if httpMethod r = ''GET'' \<and> endsWith (pathname r) ''/info''
        then infoHandler s
      else if httpMethod r = ''GET'' \<and> endsWith (pathname r) ''/calls-state''
        then callsStateHandler r e s
      else if httpMethod r = ''POST'' \<and> endsWith (pathname r) ''/viewer-calls-state''
        then viewerCallsStateHandler r e s
      else (Returned (textResponse ''Not Found'' 404), s))"

subsection \<open>The WebSocket handlers and the constructor\<close>

text \<open>
  A message is binary or a text; a text is represented by what \<^verbatim>\<open>JSON.parse\<close> makes of
  it. The handler catches what it throws: a text that is not JSON, and \<^verbatim>\<open>data.type\<close>
  on \<^verbatim>\<open>null\<close>.
\<close>

datatype ws_data = Binary | TextData "json option"

fun relayLoop :: "nat \<Rightarrow> json \<Rightarrow> (nat \<times> string) list \<Rightarrow> state \<Rightarrow> state" where
  "relayLoop ws data [] s = s"
| "relayLoop ws data ((socket, socketSession) # rest) s =
     relayLoop ws data rest
       (if socket \<noteq> ws \<and> readyState s socket = OPEN then send socket data s else s)"

definition webSocketMessage :: "nat \<Rightarrow> ws_data \<Rightarrow> state \<Rightarrow> state" where
  "webSocketMessage ws message s =
     (case message of
        Binary \<Rightarrow> s
      | TextData parsed \<Rightarrow>
          (case parsed of
             None \<Rightarrow> s
           | Some data \<Rightarrow>
               (case map_of (sessions s) ws of
                  None \<Rightarrow> s
                | Some session \<Rightarrow>
                    if data = JNull then s
                    else if field data ''type'' = Some (JStr ''signal'')
                      then relayLoop ws data (sessions s) s
                    else s)))"

text \<open>\<^verbatim>\<open>this.sessions.delete(ws); ws.close(code, reason)\<close>, after which the socket is closed.\<close>

definition webSocketClose :: "nat \<Rightarrow> state \<Rightarrow> state" where
  "webSocketClose ws s =
     s\<lparr>sessions := AList.delete ws (sessions s),
       readyState := (readyState s)(ws := CLOSED)\<rparr>"

definition webSocketError :: "nat \<Rightarrow> state \<Rightarrow> state" where
  "webSocketError ws s = s\<lparr>sessions := AList.delete ws (sessions s)\<rparr>"

text \<open>
  A restart runs the constructor: the fields start empty and \<open>sessionData\<close> is read back
  from the storage. The sockets are the platform's and stay as they are.
\<close>

definition restart :: "state \<Rightarrow> state" where
  "restart s = s\<lparr>sessions := [], sessionData := storage s\<rparr>"

definition initialState :: state where
  "initialState =
     \<lparr>sessions = [], sessionData = None, storage = None, writes = [],
      readyState = (\<lambda>k. CONNECTING), sent = (\<lambda>k. []), nextSocket = 0\<rparr>"

subsection \<open>Runs\<close>

text \<open>
  What can happen to an instance, one at a time: a request, a message, a close or an
  error on a socket, the platform changing the \<^verbatim>\<open>readyState\<close> of a socket (the peer
  went away), a restart.
\<close>

datatype event =
    Fetch request env
  | Message nat ws_data
  | Close nat
  | Error nat
  | SocketState nat ready_state
  | Restart

fun step :: "event \<Rightarrow> state \<Rightarrow> state" where
  "step (Fetch r e) s = snd (fetch r e s)"
| "step (Message ws m) s = webSocketMessage ws m s"
| "step (Close ws) s = webSocketClose ws s"
| "step (Error ws) s = webSocketError ws s"
| "step (SocketState ws st) s = s\<lparr>readyState := (readyState s)(ws := st)\<rparr>"
| "step Restart s = restart s"

fun run :: "event list \<Rightarrow> state \<Rightarrow> state" where
  "run [] s = s"
| "run (ev # evs) s = run evs (step ev s)"

section \<open>Properties\<close>

subsection \<open>Notions used by the statements\<close>

text \<open>
  \<open>routed r m p\<close>: the request is not a WebSocket upgrade, its method is \<open>m\<close> and its
  path ends with \<open>p\<close>; these are the tests \<open>fetch\<close> makes of a request.
\<close>

definition routed :: "request \<Rightarrow> string \<Rightarrow> string \<Rightarrow> bool" where
  "routed r m p = (upgrade r \<noteq> Some ''websocket'' \<and> httpMethod r = m \<and> endsWith (pathname r) p)"

text \<open>The field \<open>trackNames\<close> of the record, and the list it stands for.\<close>

definition tracksOf :: "state \<Rightarrow> string list option" where
  "tracksOf s = (case sessionData s of None \<Rightarrow> None | Some d \<Rightarrow> trackNames d)"

definition currentTracks :: "state \<Rightarrow> string list" where
  "currentTracks s = (case sessionData s of None \<Rightarrow> [] | Some d \<Rightarrow> tracksOrEmpty d)"

text \<open>
  What holds of the instance between two handlers: the storage holds the record that is in
  memory, and a record has a caster token.
\<close>

definition consistent :: "state \<Rightarrow> bool" where
  "consistent s = (storage s = sessionData s
     \<and> (case sessionData s of None \<Rightarrow> True | Some d \<Rightarrow> casterToken d \<noteq> None))"

definition sameIdentity :: "SessionData \<Rightarrow> state \<Rightarrow> bool" where
  "sameIdentity d s = (case sessionData s of None \<Rightarrow> False
     | Some d' \<Rightarrow> sessionId d' = sessionId d \<and> casterToken d' = casterToken d)"

definition follows :: "state \<Rightarrow> state \<Rightarrow> bool" where
  "follows s s' = ((consistent s \<longrightarrow> consistent s')
     \<and> (\<forall>d. sameIdentity d s \<longrightarrow> sameIdentity d s'))"




subsection \<open>Concrete inputs\<close>

definition sfuAccepts :: "sfu_request \<Rightarrow> sfu_result" where
  "sfuAccepts q = Upstream True [] (Some (JObj [(''sessionId'', JStr ''sfu1'')]))"

definition sfuRejects :: "sfu_request \<Rightarrow> sfu_result" where
  "sfuRejects q = Upstream False ''503 quota'' None"

definition exampleEnv :: "(sfu_request \<Rightarrow> sfu_result) \<Rightarrow> env" where
  "exampleEnv u =
     \<lparr>CALLS_APP_ID = ''app'', CALLS_APP_SECRET = ''secret'', ctxId = ''0123456789abcdef'',
      randomUUID = ''tok'', now = 0, upstream = u\<rparr>"

definition otherEnv :: env where
  "otherEnv =
     \<lparr>CALLS_APP_ID = ''app'', CALLS_APP_SECRET = ''secret'', ctxId = ''fedcba9876543210'',
      randomUUID = ''other'', now = 7, upstream = sfuRejects\<rparr>"

definition exampleBody :: "string \<Rightarrow> request_body" where
  "exampleBody name =
     \<lparr>body_callsSessionId = ''sfu1'', viewerSessionId = ''viewer1'', trackName = name,
      mid = None, kind = None, sessionDescription = None\<rparr>"

definition post :: "string \<Rightarrow> string option \<Rightarrow> request_body option \<Rightarrow> request" where
  "post path auth b =
     \<lparr>upgrade = None, httpMethod = ''POST'', pathname = path, roleParam = None,
      authorization = auth, payload = b\<rparr>"

definition attachRequest :: request where
  "attachRequest =
     \<lparr>upgrade = Some ''websocket'', httpMethod = ''GET'', pathname = ''/ws'', roleParam = None,
      authorization = None, payload = None\<rparr>"

definition infoRequest :: request where
  "infoRequest =
     \<lparr>upgrade = None, httpMethod = ''GET'', pathname = ''/info'', roleParam = None,
      authorization = None, payload = None\<rparr>"

definition initEvent :: event where
  "initEvent = Fetch (post ''/init'' None None) (exampleEnv sfuAccepts)"

definition addEvent :: "string \<Rightarrow> event" where
  "addEvent name =
     Fetch (post ''/add-track'' (Some ''Bearer tok'') (Some (exampleBody name)))
       (exampleEnv sfuAccepts)"

definition removeEvent :: "string \<Rightarrow> event" where
  "removeEvent name =
     Fetch (post ''/remove-track'' (Some ''Bearer tok'') (Some (exampleBody name)))
       (exampleEnv sfuAccepts)"

text \<open>The record that \<open>initEvent\<close> makes, and the same with a linked SFU session.\<close>

definition exampleData :: SessionData where
  "exampleData = \<lparr>sessionId = ''01234567'', createdAt = 0, casterToken = Some ''tok'',
     callsSessionId = None, trackNames = None\<rparr>"

definition linkedData :: "string list option \<Rightarrow> SessionData" where
  "linkedData names = \<lparr>sessionId = ''01234567'', createdAt = 0, casterToken = Some ''tok'',
     callsSessionId = Some ''sfu1'', trackNames = names\<rparr>"

text \<open>Three attached connections, the last of which is closed.\<close>

definition exampleState :: "SessionData option \<Rightarrow> state" where
  "exampleState sd =
     \<lparr>sessions = [(0, ''viewer''), (1, ''caster''), (2, ''viewer'')], sessionData = sd,
      storage = sd, writes = [], readyState = (\<lambda>k. if k = 2 then CLOSED else OPEN),
      sent = (\<lambda>k. []), nextSocket = 3\<rparr>"

definition signalMessage :: json where
  "signalMessage = JObj [(''type'', JStr ''signal''), (''sdp'', JStr ''offer'')]"

subsection \<open>Routing\<close>

text \<open>
  Two of the paths that \<open>fetch\<close> tests cannot both end the same path, since neither ends
  the other; so a request reaches the branch of its path whatever the order of the tests.
\<close>

lemma endsWith_other:
  "endsWith p a \<Longrightarrow> \<not> suffix a b \<Longrightarrow> \<not> suffix b a \<Longrightarrow> \<not> endsWith p b"
  unfolding endsWith_def using suffix_same_cases by blast

lemma fetch_init:
  assumes "upgrade r \<noteq> Some ''websocket''" "httpMethod r = ''POST''"
    and p: "endsWith (pathname r) ''/init''"
  shows "fetch r e s = initHandler e s"
  using assms by (simp add: fetch_def)

lemma fetch_calls_session:
  assumes "upgrade r \<noteq> Some ''websocket''" "httpMethod r = ''POST''"
    and p: "endsWith (pathname r) ''/calls-session''"
  shows "fetch r e s = callsSessionHandler r e s"
proof -
  have "\<not> endsWith (pathname r) ''/init''"
    by (rule endsWith_other [OF p]; simp add: suffix_to_prefix)+
  with assms show ?thesis by (simp add: fetch_def)
qed

lemma fetch_init_connection:
  assumes "upgrade r \<noteq> Some ''websocket''" "httpMethod r = ''POST''"
    and p: "endsWith (pathname r) ''/init-connection''"
  shows "fetch r e s = initConnectionHandler r e s"
proof -
  have "\<not> endsWith (pathname r) ''/init''" "\<not> endsWith (pathname r) ''/calls-session''"
    by (rule endsWith_other [OF p]; simp add: suffix_to_prefix)+
  with assms show ?thesis by (simp add: fetch_def)
qed

lemma fetch_renegotiate:
  assumes "upgrade r \<noteq> Some ''websocket''" "httpMethod r = ''POST''"
    and p: "endsWith (pathname r) ''/renegotiate''"
  shows "fetch r e s = renegotiateHandler r e s"
proof -
  have "\<not> endsWith (pathname r) ''/init''" "\<not> endsWith (pathname r) ''/calls-session''"
    "\<not> endsWith (pathname r) ''/init-connection''"
    by (rule endsWith_other [OF p]; simp add: suffix_to_prefix)+
  with assms show ?thesis by (simp add: fetch_def)
qed

lemma fetch_add_track:
  assumes "upgrade r \<noteq> Some ''websocket''" "httpMethod r = ''POST''"
    and p: "endsWith (pathname r) ''/add-track''"
  shows "fetch r e s = addTrackHandler r e s"
proof -
  have "\<not> endsWith (pathname r) ''/init''" "\<not> endsWith (pathname r) ''/calls-session''"
    "\<not> endsWith (pathname r) ''/init-connection''" "\<not> endsWith (pathname r) ''/renegotiate''"
    by (rule endsWith_other [OF p]; simp add: suffix_to_prefix)+
  with assms show ?thesis by (simp add: fetch_def)
qed




lemma fetch_remove_track:
  assumes "upgrade r \<noteq> Some ''websocket''" "httpMethod r = ''POST''"
    and p: "endsWith (pathname r) ''/remove-track''"
  shows "fetch r e s = removeTrackHandler r s"
proof -
  have "\<not> endsWith (pathname r) ''/init''" "\<not> endsWith (pathname r) ''/calls-session''"
    "\<not> endsWith (pathname r) ''/init-connection''" "\<not> endsWith (pathname r) ''/renegotiate''"
    "\<not> endsWith (pathname r) ''/add-track''" "\<not> endsWith (pathname r) ''/new-session''"
    "\<not> endsWith (pathname r) ''/pull-tracks''" "\<not> endsWith (pathname r) ''/viewer-renegotiate''"
    by (rule endsWith_other [OF p]; simp add: suffix_to_prefix)+
  with assms show ?thesis by (simp add: fetch_def)
qed

lemma fetch_info:
  assumes "upgrade r \<noteq> Some ''websocket''" "httpMethod r = ''GET''"
    and p: "endsWith (pathname r) ''/info''"
  shows "fetch r e s = infoHandler s"
  using assms by (simp add: fetch_def)

subsection \<open>Sending\<close>

lemma send_fields [simp]:
  "sessions (send k m s) = sessions s" "sessionData (send k m s) = sessionData s"
  "storage (send k m s) = storage s" "writes (send k m s) = writes s"
  "readyState (send k m s) = readyState s" "nextSocket (send k m s) = nextSocket s"
  by (simp_all add: send_def)

lemma broadcastLoop_fields [simp]:
  "sessions (broadcastLoop m xs s) = sessions s"
  "sessionData (broadcastLoop m xs s) = sessionData s"
  "storage (broadcastLoop m xs s) = storage s"
  "writes (broadcastLoop m xs s) = writes s"
  "readyState (broadcastLoop m xs s) = readyState s"
  "nextSocket (broadcastLoop m xs s) = nextSocket s"
  by (induction xs arbitrary: s) auto

lemma broadcastLoop_sent:
  "distinct (map fst xs) \<Longrightarrow>
   sent (broadcastLoop m xs s) k =
     (if k \<in> fst ` set xs \<and> readyState s k = OPEN then sent s k @ [m] else sent s k)"
proof (induction xs arbitrary: s)
  case Nil
  then show ?case by simp
next
  case (Cons x xs)
  obtain socket role where x: "x = (socket, role)" by (cases x)
  from Cons.prems have d: "distinct (map fst xs)" and n: "socket \<notin> fst ` set xs"
    by (auto simp: x)
  show ?case
    using n by (auto simp: x Cons.IH [OF d] send_def)
qed

lemma broadcast_fields [simp]:
  "sessions (broadcast m s) = sessions s"
  "sessionData (broadcast m s) = sessionData s"
  "storage (broadcast m s) = storage s"
  "writes (broadcast m s) = writes s"
  "readyState (broadcast m s) = readyState s"
  "nextSocket (broadcast m s) = nextSocket s"
  by (simp_all add: broadcast_def)

lemma broadcast_sent:
  "distinct (map fst (sessions s)) \<Longrightarrow>
   sent (broadcast m s) k =
     (if k \<in> fst ` set (sessions s) \<and> readyState s k = OPEN then sent s k @ [m]
      else sent s k)"
  by (simp add: broadcast_def broadcastLoop_sent)

lemma relayLoop_fields [simp]:
  "sessions (relayLoop ws m xs s) = sessions s"
  "sessionData (relayLoop ws m xs s) = sessionData s"
  "storage (relayLoop ws m xs s) = storage s"
  "writes (relayLoop ws m xs s) = writes s"
  "readyState (relayLoop ws m xs s) = readyState s"
  "nextSocket (relayLoop ws m xs s) = nextSocket s"
  by (induction xs arbitrary: s) auto

lemma relayLoop_sent:
  "distinct (map fst xs) \<Longrightarrow>
   sent (relayLoop ws m xs s) k =
     (if k \<in> fst ` set xs \<and> k \<noteq> ws \<and> readyState s k = OPEN then sent s k @ [m]
      else sent s k)"
proof (induction xs arbitrary: s)
  case Nil
  then show ?case by simp
next
  case (Cons x xs)
  obtain socket role where x: "x = (socket, role)" by (cases x)
  from Cons.prems have d: "distinct (map fst xs)" and n: "socket \<notin> fst ` set xs"
    by (auto simp: x)
  show ?case
    using n by (auto simp: x Cons.IH [OF d] send_def)
qed

lemma routedD:
  "routed r m p \<Longrightarrow> upgrade r \<noteq> Some ''websocket''"
  "routed r m p \<Longrightarrow> httpMethod r = m"
  "routed r m p \<Longrightarrow> endsWith (pathname r) p"
  by (simp_all add: routed_def)

subsection \<open>What every handler keeps\<close>

lemma relayUpstream_state [simp]: "snd (relayUpstream f res s) = s"
  by (simp add: relayUpstream_def split: sfu_result.splits option.splits)

lemmas handler_defs = upgradeBranch_def initHandler_def callsSessionHandler_def
  initConnectionHandler_def renegotiateHandler_def addTrackHandler_def newSessionHandler_def
  pullTracksHandler_def viewerRenegotiateHandler_def removeTrackHandler_def infoHandler_def
  callsStateHandler_def viewerCallsStateHandler_def

lemma follows_refl [simp]: "follows s s"
  by (simp add: follows_def)

lemma follows_upgrade: "follows s (snd (upgradeBranch r s))"
  by (auto simp: follows_def upgradeBranch_def consistent_def sameIdentity_def Let_def send_def
      split: option.splits)

lemma follows_init: "follows s (snd (initHandler e s))"
  by (auto simp: follows_def initHandler_def consistent_def sameIdentity_def Let_def put_def
      split: option.splits)

lemma follows_calls_session: "follows s (snd (callsSessionHandler r e s))"
  by (auto simp: follows_def callsSessionHandler_def consistent_def sameIdentity_def Let_def
      put_def split: option.splits sfu_result.splits)

lemma follows_init_connection: "follows s (snd (initConnectionHandler r e s))"
  by (simp add: initConnectionHandler_def split: option.splits)

lemma follows_renegotiate: "follows s (snd (renegotiateHandler r e s))"
  by (simp add: renegotiateHandler_def split: option.splits)

lemma follows_add_track: "follows s (snd (addTrackHandler r e s))"
  by (auto simp: follows_def addTrackHandler_def consistent_def sameIdentity_def Let_def
      put_def split: option.splits sfu_result.splits)

lemma follows_new_session: "follows s (snd (newSessionHandler e s))"
  by (simp add: newSessionHandler_def)

lemma follows_pull_tracks: "follows s (snd (pullTracksHandler r e s))"
  by (simp add: pullTracksHandler_def split: option.splits sfu_result.splits)

lemma follows_viewer_renegotiate: "follows s (snd (viewerRenegotiateHandler r e s))"
  by (simp add: viewerRenegotiateHandler_def split: option.splits)

lemma follows_remove_track: "follows s (snd (removeTrackHandler r s))"
  by (auto simp: follows_def removeTrackHandler_def consistent_def sameIdentity_def Let_def
      put_def split: option.splits)

lemma follows_info: "follows s (snd (infoHandler s))"
  by (simp add: infoHandler_def split: option.splits)

lemma follows_calls_state: "follows s (snd (callsStateHandler r e s))"
  by (simp add: callsStateHandler_def split: option.splits)

lemma follows_viewer_calls_state: "follows s (snd (viewerCallsStateHandler r e s))"
  by (simp add: viewerCallsStateHandler_def split: option.splits)

lemma follows_fetch: "follows s (snd (fetch r e s))"
  by (simp add: fetch_def follows_upgrade follows_init follows_calls_session
      follows_init_connection follows_renegotiate follows_add_track follows_new_session
      follows_pull_tracks follows_viewer_renegotiate follows_remove_track follows_info
      follows_calls_state follows_viewer_calls_state)

lemma fetch_consistent: "consistent s \<Longrightarrow> consistent (snd (fetch r e s))"
  using follows_fetch [of s r e] by (simp add: follows_def)

lemma fetch_sameIdentity: "sameIdentity d s \<Longrightarrow> sameIdentity d (snd (fetch r e s))"
  using follows_fetch [of s r e] by (simp add: follows_def)

lemma webSocketMessage_sessionData [simp]:
  "sessionData (webSocketMessage ws m s) = sessionData s"
  "storage (webSocketMessage ws m s) = storage s"
  by (simp_all add: webSocketMessage_def split: ws_data.splits option.splits)

lemma step_consistent: "consistent s \<Longrightarrow> consistent (step ev s)"
proof (cases ev)
  case (Fetch r e)
  then show "consistent s \<Longrightarrow> ?thesis" by (simp add: fetch_consistent)
qed (simp_all add: consistent_def webSocketClose_def webSocketError_def restart_def)

lemma step_sameIdentity: "consistent s \<Longrightarrow> sameIdentity d s \<Longrightarrow> sameIdentity d (step ev s)"
proof (cases ev)
  case (Fetch r e)
  then show "sameIdentity d s \<Longrightarrow> ?thesis" by (simp add: fetch_sameIdentity)
qed (simp_all add: consistent_def sameIdentity_def webSocketClose_def webSocketError_def
      restart_def)

lemma run_consistent: "consistent s \<Longrightarrow> consistent (run evs s)"
  by (induction evs arbitrary: s) (simp_all add: step_consistent)

lemma run_sameIdentity: "consistent s \<Longrightarrow> sameIdentity d s \<Longrightarrow> sameIdentity d (run evs s)"
  by (induction evs arbitrary: s) (simp_all add: step_consistent step_sameIdentity)

lemma initial_consistent: "consistent initialState"
  by (simp add: consistent_def initialState_def)

subsection \<open>Who changes the track names\<close>









subsection \<open>Evaluation of the concrete inputs\<close>

lemmas eval = fetch_def handler_defs endsWith_def suffix_to_prefix Let_def put_def send_def
  broadcast_def initialState_def sfuAccepts_def sfuRejects_def exampleEnv_def exampleBody_def
  post_def attachRequest_def infoRequest_def initEvent_def routed_def bearer_def opt_def
  unauthorizedResponse_def textResponse_def jsonResponse_def initResponse_def
  relayUpstream_def tracksOf_def currentTracks_def tracksOrEmpty_def exampleData_def
  linkedData_def exampleState_def otherEnv_def signalMessage_def addEvent_def removeEvent_def

lemma run_init: "run [initEvent] initialState =
  \<lparr>sessions = [], sessionData = Some exampleData, storage = Some exampleData,
   writes = [exampleData], readyState = (\<lambda>k. CONNECTING), sent = (\<lambda>k. []), nextSocket = 0\<rparr>"
  by (simp add: eval)

section \<open>The statements C1 to C10\<close>

subsection \<open>C1: a request without the caster token changes nothing\<close>

text \<open>
  C1. A request for create SFU session, init-connection, renegotiate, add track or remove
  track is answered 401 Unauthorized, and the instance is left as it was (the record, the
  storage and its write log, what was sent to every connection), whenever the session is
  not initialized or the Authorization header is not \<^verbatim>\<open>Bearer\<close> followed by the caster
  token of the record.
\<close>

theorem unauthorized_rejected:
  assumes "routed r ''POST'' ''/calls-session'' \<or> routed r ''POST'' ''/init-connection''
       \<or> routed r ''POST'' ''/renegotiate'' \<or> routed r ''POST'' ''/add-track''
       \<or> routed r ''POST'' ''/remove-track''"
    and "sessionData s = None
       \<or> (\<exists>d. sessionData s = Some d \<and> authorization r \<noteq> Some (bearer (casterToken d)))"
  shows "fetch r e s = (Returned (textResponse ''Unauthorized'' 401), s)"
proof -
  have "callsSessionHandler r e s = (Returned (textResponse ''Unauthorized'' 401), s)"
    "initConnectionHandler r e s = (Returned (textResponse ''Unauthorized'' 401), s)"
    "renegotiateHandler r e s = (Returned (textResponse ''Unauthorized'' 401), s)"
    "addTrackHandler r e s = (Returned (textResponse ''Unauthorized'' 401), s)"
    "removeTrackHandler r s = (Returned (textResponse ''Unauthorized'' 401), s)"
    using assms(2)
    by (auto simp: callsSessionHandler_def initConnectionHandler_def renegotiateHandler_def
        addTrackHandler_def removeTrackHandler_def unauthorizedResponse_def)
  with assms(1) show ?thesis
    using fetch_calls_session fetch_init_connection fetch_renegotiate fetch_add_track
      fetch_remove_track routedD by metis
qed

text \<open>
  A wrong token on add track, with three connections attached: on an initialized session
  and before init.
\<close>

theorem unauthorized_rejected_witness:
  "routed (post ''/add-track'' (Some ''Bearer wrong'') (Some (exampleBody ''v1'')))
      ''POST'' ''/add-track''
   \<and> sessionData (exampleState (Some exampleData)) = Some exampleData
   \<and> casterToken exampleData = Some ''tok''
   \<and> fetch (post ''/add-track'' (Some ''Bearer wrong'') (Some (exampleBody ''v1'')))
        (exampleEnv sfuAccepts) (exampleState (Some exampleData))
      = (Returned (textResponse ''Unauthorized'' 401), exampleState (Some exampleData))
   \<and> fetch (post ''/add-track'' (Some ''Bearer wrong'') (Some (exampleBody ''v1'')))
        (exampleEnv sfuAccepts) (exampleState None)
      = (Returned (textResponse ''Unauthorized'' 401), exampleState None)"
proof -
  let ?r = "post ''/add-track'' (Some ''Bearer wrong'') (Some (exampleBody ''v1''))"
  let ?s = "exampleState (Some exampleData)"
  have h: "routed ?r ''POST'' ''/add-track''"
    by (simp add: routed_def post_def endsWith_def)
  then have h1: "routed ?r ''POST'' ''/calls-session'' \<or> routed ?r ''POST'' ''/init-connection''
       \<or> routed ?r ''POST'' ''/renegotiate'' \<or> routed ?r ''POST'' ''/add-track''
       \<or> routed ?r ''POST'' ''/remove-track''"
    by simp
  have h2: "sessionData ?s = None
       \<or> (\<exists>d. sessionData ?s = Some d \<and> authorization ?r \<noteq> Some (bearer (casterToken d)))"
    by (simp add: exampleState_def post_def bearer_def exampleData_def)
  have h3: "sessionData (exampleState None) = None
       \<or> (\<exists>d. sessionData (exampleState None) = Some d
             \<and> authorization ?r \<noteq> Some (bearer (casterToken d)))"
    by (simp add: exampleState_def)
  have "fetch ?r (exampleEnv sfuAccepts) ?s = (Returned (textResponse ''Unauthorized'' 401), ?s)"
    by (rule unauthorized_rejected [OF h1 h2])
  moreover have "fetch ?r (exampleEnv sfuAccepts) (exampleState None)
      = (Returned (textResponse ''Unauthorized'' 401), exampleState None)"
    by (rule unauthorized_rejected [OF h1 h3])
  ultimately show ?thesis
    using h by (simp add: exampleState_def exampleData_def)
qed

subsection \<open>C2: init is idempotent\<close>

text \<open>
  C2. In every state that a run reaches from the start, init answers 200 with a sessionId
  and a casterToken; and after it, whatever happens to the instance in between (requests,
  messages, closes, restarts), every later init gives the same answer and leaves the
  instance, with the stored record, as it is.
\<close>

theorem init_idempotent:
  assumes "routed r1 ''POST'' ''/init''" and "routed r2 ''POST'' ''/init''"
  shows "\<exists>sid tok.
      fst (fetch r1 e1 (run evs0 initialState)) =
        Returned (jsonResponse (JObj [(''sessionId'', JStr sid), (''casterToken'', JStr tok)]))
    \<and> fetch r2 e2 (run evs (snd (fetch r1 e1 (run evs0 initialState)))) =
        (Returned (jsonResponse (JObj [(''sessionId'', JStr sid), (''casterToken'', JStr tok)])),
         run evs (snd (fetch r1 e1 (run evs0 initialState))))"
proof -
  define s0 where "s0 = run evs0 initialState"
  define s1 where "s1 = snd (fetch r1 e1 s0)"
  have c0: "consistent s0"
    unfolding s0_def by (rule run_consistent [OF initial_consistent])
  have f1: "fetch r1 e1 s0 = initHandler e1 s0"
    using assms(1) by (simp add: fetch_init routedD)
  obtain d tok where d: "sessionData s1 = Some d" "casterToken d = Some tok"
    and r1: "fst (fetch r1 e1 s0) = Returned (initResponse d)"
    using c0 unfolding s1_def f1
    by (auto simp: initHandler_def consistent_def Let_def put_def split: option.splits)
  have c1: "consistent s1"
    unfolding s1_def by (rule fetch_consistent [OF c0])
  have "sameIdentity d s1"
    using d by (simp add: sameIdentity_def)
  then have "sameIdentity d (run evs s1)"
    by (rule run_sameIdentity [OF c1])
  then obtain d' where d': "sessionData (run evs s1) = Some d'"
    "sessionId d' = sessionId d" "casterToken d' = casterToken d"
    by (auto simp: sameIdentity_def split: option.splits)
  have "fetch r2 e2 (run evs s1) = initHandler e2 (run evs s1)"
    using assms(2) by (simp add: fetch_init routedD)
  also have "\<dots> = (Returned (initResponse d'), run evs s1)"
    using d' by (simp add: initHandler_def)
  finally have r2: "fetch r2 e2 (run evs s1) = (Returned (initResponse d), run evs s1)"
    using d' by (simp add: initResponse_def)
  have "initResponse d =
      jsonResponse (JObj [(''sessionId'', JStr (sessionId d)), (''casterToken'', JStr tok)])"
    using d by (simp add: initResponse_def opt_def)
  with r1 r2 show ?thesis
    unfolding s1_def s0_def by auto
qed

text \<open>
  A first init, then an add track and a restart, then an init for which the platform would
  give another identifier and another token.
\<close>

theorem init_idempotent_witness:
  "routed (post ''/init'' None None) ''POST'' ''/init''
   \<and> fetch (post ''/init'' None None) otherEnv
        (run [Fetch (post ''/add-track'' (Some ''Bearer tok'') (Some (exampleBody ''v1'')))
                (exampleEnv sfuAccepts), Restart]
           (snd (fetch (post ''/init'' None None) (exampleEnv sfuAccepts) (run [] initialState))))
      = (Returned (jsonResponse
           (JObj [(''sessionId'', JStr ''01234567''), (''casterToken'', JStr ''tok'')])),
         run [Fetch (post ''/add-track'' (Some ''Bearer tok'') (Some (exampleBody ''v1'')))
                (exampleEnv sfuAccepts), Restart]
           (snd (fetch (post ''/init'' None None) (exampleEnv sfuAccepts) (run [] initialState))))"
proof -
  let ?r = "post ''/init'' None None"
  let ?evs = "[Fetch (post ''/add-track'' (Some ''Bearer tok'') (Some (exampleBody ''v1'')))
                (exampleEnv sfuAccepts), Restart]"
  have h: "routed ?r ''POST'' ''/init''"
    by (simp add: routed_def post_def endsWith_def)
  from init_idempotent [OF h h, of "exampleEnv sfuAccepts" "[]" otherEnv ?evs]
  obtain sid tok where
    1: "fst (fetch ?r (exampleEnv sfuAccepts) (run [] initialState)) =
        Returned (jsonResponse (JObj [(''sessionId'', JStr sid), (''casterToken'', JStr tok)]))"
    and 2: "fetch ?r otherEnv
          (run ?evs (snd (fetch ?r (exampleEnv sfuAccepts) (run [] initialState)))) =
        (Returned (jsonResponse (JObj [(''sessionId'', JStr sid), (''casterToken'', JStr tok)])),
         run ?evs (snd (fetch ?r (exampleEnv sfuAccepts) (run [] initialState))))"
    by blast
  from 1 have "sid = ''01234567''" "tok = ''tok''"
    by (simp_all add: eval)
  with 2 h show ?thesis by simp
qed

subsection \<open>C3: adding a present name and removing an absent one\<close>

text \<open>
  C3. In every state, an add track request whose name is already among the track names
  leaves the track names as they are. In every state, a remove track request whose name
  is not among the track names leaves them as they are, also when the record has no track
  names or there is no record. From a record with no track names, an accepted add track
  makes them the one name, and the same add track once more leaves them the one name.
  The three parts are stated each under its own hypotheses, on its own request and state.
\<close>

theorem track_set_idempotent:
  "(routed ra ''POST'' ''/add-track'' \<and> payload ra = Some ba
      \<and> trackName ba \<in> set (currentTracks sa)
      \<longrightarrow> tracksOf (snd (fetch ra ea sa)) = tracksOf sa)
   \<and> (routed rr ''POST'' ''/remove-track'' \<and> payload rr = Some br
      \<and> trackName br \<notin> set (currentTracks sr)
      \<longrightarrow> tracksOf (snd (fetch rr er sr)) = tracksOf sr)
   \<and> (routed rt ''POST'' ''/add-track'' \<and> payload rt = Some bt
      \<and> sessionData st = Some dt \<and> tracksOrEmpty dt = []
      \<and> authorization rt = Some (bearer (casterToken dt))
      \<and> upstream e1 (addTrackRequest e1 bt) = Upstream True t1 (Some j1)
      \<and> upstream e2 (addTrackRequest e2 bt) = Upstream True t2 (Some j2)
      \<longrightarrow> tracksOf (snd (fetch rt e1 st)) = Some [trackName bt]
        \<and> tracksOf (snd (fetch rt e2 (snd (fetch rt e1 st)))) = Some [trackName bt])"
proof -
  have a: "tracksOf (snd (fetch ra ea sa)) = tracksOf sa"
    if "routed ra ''POST'' ''/add-track''" "payload ra = Some ba"
      "trackName ba \<in> set (currentTracks sa)"
    using that
    by (auto simp: fetch_add_track routedD addTrackHandler_def tracksOf_def currentTracks_def
        tracksOrEmpty_def Let_def put_def split: option.splits sfu_result.splits)
  have keep: "filter (\<lambda>tn. tn \<noteq> trackName br) l = l" if "trackName br \<notin> set l" for l
    using that by (induction l) auto
  have b: "tracksOf (snd (fetch rr er sr)) = tracksOf sr"
    if "routed rr ''POST'' ''/remove-track''" "payload rr = Some br"
      "trackName br \<notin> set (currentTracks sr)"
    using that keep
    by (auto simp: fetch_remove_track routedD removeTrackHandler_def tracksOf_def
        currentTracks_def tracksOrEmpty_def Let_def put_def split: option.splits)
  have c: "tracksOf (snd (fetch rt e1 st)) = Some [trackName bt]
      \<and> tracksOf (snd (fetch rt e2 (snd (fetch rt e1 st)))) = Some [trackName bt]"
    if "routed rt ''POST'' ''/add-track''" "payload rt = Some bt"
      "sessionData st = Some dt" "tracksOrEmpty dt = []"
      "authorization rt = Some (bearer (casterToken dt))"
      "upstream e1 (addTrackRequest e1 bt) = Upstream True t1 (Some j1)"
      "upstream e2 (addTrackRequest e2 bt) = Upstream True t2 (Some j2)"
    using that
    by (auto simp: fetch_add_track routedD addTrackHandler_def tracksOf_def
        tracksOrEmpty_def Let_def put_def split: option.splits)
  from a b c show ?thesis by blast
qed

text \<open>
  The name t1 added where it is; the name absent removed from a session that never had a
  track, right after init; and t1 added twice to a session without tracks.
\<close>

theorem track_set_idempotent_witness:
  "trackName (exampleBody ''t1'') \<in> set (currentTracks (exampleState (Some (linkedData (Some [''t1''])))))
   \<and> currentTracks (run [initEvent] initialState) = []
   \<and> tracksOf (snd (fetch (post ''/add-track'' (Some ''Bearer tok'') (Some (exampleBody ''t1'')))
        (exampleEnv sfuAccepts) (exampleState (Some (linkedData (Some [''t1''])))))) = Some [''t1'']
   \<and> tracksOf (snd (fetch (post ''/remove-track'' (Some ''Bearer tok'')
          (Some (exampleBody ''absent'')))
        (exampleEnv sfuAccepts) (run [initEvent] initialState))) = None
   \<and> tracksOf (snd (fetch (post ''/add-track'' (Some ''Bearer tok'') (Some (exampleBody ''t1'')))
        (exampleEnv sfuAccepts)
        (snd (fetch (post ''/add-track'' (Some ''Bearer tok'') (Some (exampleBody ''t1'')))
           (exampleEnv sfuAccepts) (exampleState (Some (linkedData None))))))) = Some [''t1'']"
proof -
  let ?ra = "post ''/add-track'' (Some ''Bearer tok'') (Some (exampleBody ''t1''))"
  let ?rr = "post ''/remove-track'' (Some ''Bearer tok'') (Some (exampleBody ''absent''))"
  let ?present = "exampleState (Some (linkedData (Some [''t1''])))"
  let ?empty = "run [initEvent] initialState"
  let ?fresh = "exampleState (Some (linkedData None))"
  let ?e = "exampleEnv sfuAccepts"
  have h1: "routed ?ra ''POST'' ''/add-track''" and h2: "payload ?ra = Some (exampleBody ''t1'')"
    and h3: "routed ?rr ''POST'' ''/remove-track''"
    and h4: "payload ?rr = Some (exampleBody ''absent'')"
    by (simp_all add: routed_def post_def endsWith_def)
  have h5: "trackName (exampleBody ''t1'') \<in> set (currentTracks ?present)"
    by (simp add: exampleBody_def currentTracks_def exampleState_def linkedData_def
        tracksOrEmpty_def)
  have em: "currentTracks ?empty = []" and tn: "tracksOf ?empty = None"
    unfolding run_init by (simp_all add: currentTracks_def tracksOf_def tracksOrEmpty_def
        exampleData_def)
  then have h6: "trackName (exampleBody ''absent'') \<notin> set (currentTracks ?empty)"
    by simp
  have h7: "sessionData ?fresh = Some (linkedData None)"
    and h8: "tracksOrEmpty (linkedData None) = []"
    and h9: "authorization ?ra = Some (bearer (casterToken (linkedData None)))"
    by (simp_all add: exampleState_def linkedData_def tracksOrEmpty_def post_def bearer_def)
  have h10: "upstream ?e (addTrackRequest ?e (exampleBody ''t1''))
      = Upstream True [] (Some (JObj [(''sessionId'', JStr ''sfu1'')]))"
    by (simp add: exampleEnv_def sfuAccepts_def)
  have t: "tracksOf ?present = Some [''t1'']" and n: "trackName (exampleBody ''t1'') = ''t1''"
    by (simp_all add: tracksOf_def exampleState_def linkedData_def exampleBody_def)
  note inst = track_set_idempotent [of ?ra "exampleBody ''t1''" ?present ?e
      ?rr "exampleBody ''absent''" ?empty ?e
      ?ra "exampleBody ''t1''" ?fresh "linkedData None" ?e "[]"
      "JObj [(''sessionId'', JStr ''sfu1'')]" ?e "[]" "JObj [(''sessionId'', JStr ''sfu1'')]"]
  from inst h1 h2 h5 have 1: "tracksOf (snd (fetch ?ra ?e ?present)) = tracksOf ?present"
    by blast
  from inst h3 h4 h6 have 2: "tracksOf (snd (fetch ?rr ?e ?empty)) = tracksOf ?empty"
    by blast
  from inst h1 h2 h7 h8 h9 h10
  have 3: "tracksOf (snd (fetch ?ra ?e (snd (fetch ?ra ?e ?fresh))))
      = Some [trackName (exampleBody ''t1'')]"
    by blast
  from 1 2 3 h5 em show ?thesis
    by (simp only: t n tn)
qed

subsection \<open>C4: add track when the SFU refuses\<close>

text \<open>
  C4. An add track request that carries the caster token, to which the SFU answers with a
  status that is not a success, is answered 500 and leaves the instance as it was: the
  track names, the storage and its write log, and what was sent to the connections. An
  add track request changes the instance only when the SFU answered with a success and a
  JSON body.
\<close>

theorem add_track_upstream_failure:
  assumes "routed r ''POST'' ''/add-track''"
    and "sessionData s = Some d" and "authorization r = Some (bearer (casterToken d))"
    and "payload r = Some b"
    and "upstream e (addTrackRequest e b) = Upstream False errorText parsed"
  shows "fetch r e s = (Returned (textResponse (''Failed to add track: '' @ errorText) 500), s)
       \<and> (\<forall>e'. snd (fetch r e' s) \<noteq> s \<longrightarrow>
            (\<exists>t j. upstream e' (addTrackRequest e' b) = Upstream True t (Some j)))"
  using assms
  by (auto simp: fetch_add_track routedD addTrackHandler_def
      split: sfu_result.splits option.splits)

text \<open>The same request with an SFU that refuses and with one that accepts.\<close>

theorem add_track_upstream_failure_witness:
  "routed (post ''/add-track'' (Some ''Bearer tok'') (Some (exampleBody ''v1''))) ''POST''
      ''/add-track''
   \<and> upstream (exampleEnv sfuRejects) (addTrackRequest (exampleEnv sfuRejects) (exampleBody ''v1''))
       = Upstream False ''503 quota'' None
   \<and> fetch (post ''/add-track'' (Some ''Bearer tok'') (Some (exampleBody ''v1'')))
        (exampleEnv sfuRejects) (exampleState (Some exampleData))
      = (Returned (textResponse ''Failed to add track: 503 quota'' 500),
         exampleState (Some exampleData))
   \<and> snd (fetch (post ''/add-track'' (Some ''Bearer tok'') (Some (exampleBody ''v1'')))
        (exampleEnv sfuAccepts) (exampleState (Some exampleData)))
      \<noteq> exampleState (Some exampleData)
   \<and> upstream (exampleEnv sfuAccepts) (addTrackRequest (exampleEnv sfuAccepts) (exampleBody ''v1''))
       = Upstream True [] (Some (JObj [(''sessionId'', JStr ''sfu1'')]))"
proof -
  let ?r = "post ''/add-track'' (Some ''Bearer tok'') (Some (exampleBody ''v1''))"
  let ?s = "exampleState (Some exampleData)"
  let ?e = "exampleEnv sfuRejects"
  have h1: "routed ?r ''POST'' ''/add-track''"
    by (simp add: routed_def post_def endsWith_def)
  have h2: "sessionData ?s = Some exampleData"
    and h3: "authorization ?r = Some (bearer (casterToken exampleData))"
    and h4: "payload ?r = Some (exampleBody ''v1'')"
    by (simp_all add: exampleState_def exampleData_def post_def bearer_def)
  have h5: "upstream ?e (addTrackRequest ?e (exampleBody ''v1''))
      = Upstream False ''503 quota'' None"
    by (simp add: exampleEnv_def sfuRejects_def)
  have ch: "writes (snd (fetch ?r (exampleEnv sfuAccepts) ?s)) \<noteq> writes ?s"
    by (simp add: eval)
  then have ne: "snd (fetch ?r (exampleEnv sfuAccepts) ?s) \<noteq> ?s"
    by auto
  have ok: "upstream (exampleEnv sfuAccepts)
        (addTrackRequest (exampleEnv sfuAccepts) (exampleBody ''v1''))
      = Upstream True [] (Some (JObj [(''sessionId'', JStr ''sfu1'')]))"
    by (simp add: exampleEnv_def sfuAccepts_def)
  from add_track_upstream_failure [OF h1 h2 h3 h4 h5]
  have "fetch ?r ?e ?s
      = (Returned (textResponse (''Failed to add track: '' @ ''503 quota'') 500), ?s)"
    by blast
  then show ?thesis
    using h1 h5 ne ok by simp
qed

subsection \<open>C5: what a caller sees when the SFU refuses\<close>




subsection \<open>C6: info\<close>

text \<open>
  C6. A GET of info is answered 200 whatever the Authorization header, and leaves the
  instance as it was. The body is \<^verbatim>\<open>{ready:false}\<close> when there is no record or the
  record has no callsSessionId (an empty one counts as none); otherwise it is
  \<^verbatim>\<open>{ready:true, callsSessionId, trackNames}\<close> with the callsSessionId of the record and
  its track names, the empty list when it has none.
\<close>

theorem info_reports_state:
  assumes "routed r ''GET'' ''/info''"
  shows "fetch r e s =
     (Returned (jsonResponse
        (case sessionData s of
           None \<Rightarrow> JObj [(''ready'', JBool False)]
         | Some d \<Rightarrow>
            (case callsSessionId d of
               None \<Rightarrow> JObj [(''ready'', JBool False)]
             | Some c \<Rightarrow>
                 if c = [] then JObj [(''ready'', JBool False)]
                 else JObj [(''ready'', JBool True), (''callsSessionId'', JStr c),
                       (''trackNames'',
                        JArr (map JStr (case trackNames d of None \<Rightarrow> [] | Some l \<Rightarrow> l)))]))), s)"
  using assms
  by (simp add: fetch_info routedD infoHandler_def notReady_def tracksOrEmpty_def
      split: option.splits)

text \<open>An initialized session that is not linked, and a linked one with one track.\<close>

theorem info_reports_state_witness:
  "routed infoRequest ''GET'' ''/info''
   \<and> fetch infoRequest otherEnv (exampleState (Some exampleData))
      = (Returned (jsonResponse (JObj [(''ready'', JBool False)])),
         exampleState (Some exampleData))
   \<and> fetch infoRequest otherEnv (exampleState (Some (linkedData (Some [''v1'']))))
      = (Returned (jsonResponse (JObj [(''ready'', JBool True),
           (''callsSessionId'', JStr ''sfu1''), (''trackNames'', JArr [JStr ''v1''])])),
         exampleState (Some (linkedData (Some [''v1'']))))"
proof -
  have h: "routed infoRequest ''GET'' ''/info''"
    by (simp add: routed_def infoRequest_def endsWith_def)
  have 1: "sessionData (exampleState (Some exampleData)) = Some exampleData"
    "callsSessionId exampleData = None"
    and 2: "sessionData (exampleState (Some (linkedData (Some [''v1'']))))
      = Some (linkedData (Some [''v1'']))"
    "callsSessionId (linkedData (Some [''v1''])) = Some ''sfu1''"
    "trackNames (linkedData (Some [''v1''])) = Some [''v1'']"
    by (simp_all add: exampleState_def exampleData_def linkedData_def)
  show ?thesis
    using h info_reports_state [OF h, of otherEnv "exampleState (Some exampleData)"]
      info_reports_state [OF h, of otherEnv "exampleState (Some (linkedData (Some [''v1''])))"]
    by (simp add: 1 2)
qed

subsection \<open>C7: relaying a signal\<close>

text \<open>
  C7. When an attached connection sends a text whose JSON value has the type signal, that
  value is sent once to every other attached connection that is open, and to no other:
  not to the sender, not to a connection that is not open, not to one that is not
  attached. Nothing else of the instance changes.
\<close>

theorem signal_relay:
  assumes "map_of (sessions s) ws = Some role"
    and "field data ''type'' = Some (JStr ''signal'')"
    and "distinct (map fst (sessions s))"
  shows "webSocketMessage ws (TextData (Some data)) s =
     s\<lparr>sent := (\<lambda>k. if k \<in> fst ` set (sessions s) \<and> k \<noteq> ws \<and> readyState s k = OPEN
                    then sent s k @ [data] else sent s k)\<rparr>"
proof -
  from assms(2) have nn: "data \<noteq> JNull" by auto
  have "webSocketMessage ws (TextData (Some data)) s = relayLoop ws data (sessions s) s"
    using assms(1,2) nn by (simp add: webSocketMessage_def)
  moreover have "relayLoop ws data (sessions s) s =
     s\<lparr>sent := (\<lambda>k. if k \<in> fst ` set (sessions s) \<and> k \<noteq> ws \<and> readyState s k = OPEN
                    then sent s k @ [data] else sent s k)\<rparr>"
    by (rule state.equality) (simp_all add: relayLoop_sent [OF assms(3)] fun_eq_iff)
  ultimately show ?thesis by simp
qed

text \<open>
  Connection 0 sends a signal: the open connection 1 gets it, the sender and the closed
  connection 2 get nothing.
\<close>

theorem signal_relay_witness:
  "map_of (sessions (exampleState None)) 0 = Some ''viewer''
   \<and> field signalMessage ''type'' = Some (JStr ''signal'')
   \<and> distinct (map fst (sessions (exampleState None)))
   \<and> sent (webSocketMessage 0 (TextData (Some signalMessage)) (exampleState None)) 0 = []
   \<and> sent (webSocketMessage 0 (TextData (Some signalMessage)) (exampleState None)) 1
        = [signalMessage]
   \<and> sent (webSocketMessage 0 (TextData (Some signalMessage)) (exampleState None)) 2 = []"
proof -
  have h1: "map_of (sessions (exampleState None)) 0 = Some ''viewer''"
    and h2: "field signalMessage ''type'' = Some (JStr ''signal'')"
    and h3: "distinct (map fst (sessions (exampleState None)))"
    by (simp_all add: exampleState_def signalMessage_def)
  show ?thesis
    using h1 h2 h3 by (simp add: signal_relay [OF h1 h2 h3]) (simp add: exampleState_def)
qed

subsection \<open>C8: track names and the linked SFU session\<close>




subsection \<open>C9: attaching a connection\<close>

text \<open>
  C9. Every WebSocket upgrade is answered 101 and registers the new connection, open,
  under the role of the request (viewer when none is given). When the session is
  initialized, the new connection is sent one event, the session-data snapshot with the
  sessionId, the callsSessionId (left out when unset) and the track names of that moment;
  when the session is not initialized, it is sent nothing. The record, the storage and
  what the other connections were sent stay as they were.
\<close>

theorem attach_registers_and_snapshots:
  assumes "upgrade r = Some ''websocket''"
  shows "fst (fetch r e s) = Returned \<lparr>status = 101, body = NoBody, webSocket = Some (nextSocket s)\<rparr>
       \<and> map_of (sessions (snd (fetch r e s))) (nextSocket s) =
           Some (case roleParam r of None \<Rightarrow> ''viewer'' | Some x \<Rightarrow> if x = [] then ''viewer'' else x)
       \<and> readyState (snd (fetch r e s)) (nextSocket s) = OPEN
       \<and> sent (snd (fetch r e s)) (nextSocket s) =
           (case sessionData s of
              None \<Rightarrow> []
            | Some d \<Rightarrow>
                [JObj [(''type'', JStr ''session-data''),
                       (''data'', JObj ([(''sessionId'', JStr (sessionId d))]
                          @ (case callsSessionId d of
                               None \<Rightarrow> [] | Some c \<Rightarrow> [(''callsSessionId'', JStr c)])
                          @ [(''trackNames'',
                              JArr (map JStr (case trackNames d of None \<Rightarrow> [] | Some l \<Rightarrow> l)))]))]])
       \<and> (\<forall>k. k \<noteq> nextSocket s \<longrightarrow> sent (snd (fetch r e s)) k = sent s k)
       \<and> sessionData (snd (fetch r e s)) = sessionData s
       \<and> storage (snd (fetch r e s)) = storage s
       \<and> writes (snd (fetch r e s)) = writes s"
  using assms
  by (simp add: fetch_def upgradeBranch_def Let_def send_def update_conv' sessionDataMessage_def
      opt_def tracksOrEmpty_def split: option.splits)

text \<open>A connection attaches to a linked session with one track.\<close>

theorem attach_registers_and_snapshots_witness:
  "upgrade attachRequest = Some ''websocket''
   \<and> fst (fetch attachRequest otherEnv (exampleState (Some (linkedData (Some [''v1''])))))
       = Returned \<lparr>status = 101, body = NoBody, webSocket = Some 3\<rparr>
   \<and> map_of (sessions (snd (fetch attachRequest otherEnv
         (exampleState (Some (linkedData (Some [''v1'']))))))) 3 = Some ''viewer''
   \<and> sent (snd (fetch attachRequest otherEnv (exampleState (Some (linkedData (Some [''v1''])))))) 3
       = [JObj [(''type'', JStr ''session-data''),
                (''data'', JObj [(''sessionId'', JStr ''01234567''),
                                 (''callsSessionId'', JStr ''sfu1''),
                                 (''trackNames'', JArr [JStr ''v1''])])]]
   \<and> sent (snd (fetch attachRequest otherEnv (exampleState (Some (linkedData (Some [''v1''])))))) 2
       = []"
proof -
  let ?s = "exampleState (Some (linkedData (Some [''v1''])))"
  have h: "upgrade attachRequest = Some ''websocket''"
    by (simp add: attachRequest_def)
  have v: "nextSocket ?s = 3" "sessionData ?s = Some (linkedData (Some [''v1'']))"
    "sessionId (linkedData (Some [''v1''])) = ''01234567''"
    "callsSessionId (linkedData (Some [''v1''])) = Some ''sfu1''"
    "trackNames (linkedData (Some [''v1''])) = Some [''v1'']"
    "roleParam attachRequest = None" "sent ?s 2 = []"
    by (simp_all add: exampleState_def linkedData_def attachRequest_def)
  show ?thesis
    using h attach_registers_and_snapshots [OF h, of otherEnv ?s]
    by (simp add: v)
qed

text \<open>
  The statement with a snapshot at every attach fails before init: the connection is
  registered and is sent nothing.
\<close>

theorem attach_before_init_sends_nothing:
  "map_of (sessions (snd (fetch attachRequest (exampleEnv sfuAccepts) initialState))) 0
      = Some ''viewer''
   \<and> sent (snd (fetch attachRequest (exampleEnv sfuAccepts) initialState)) 0 = []"
  by (simp add: eval)

subsection \<open>C10: remove track always tells the connections\<close>

text \<open>
  C10. A remove track request that carries the caster token is answered 200 with
  \<^verbatim>\<open>{success:true}\<close>, and the event track-removed with the name of the request is sent
  once to every attached connection that is open, whether the name was among the track
  names or not, and also when no track was ever added.
\<close>

theorem remove_track_always_broadcasts:
  assumes "routed r ''POST'' ''/remove-track''"
    and "sessionData s = Some d" and "authorization r = Some (bearer (casterToken d))"
    and "payload r = Some b"
    and "distinct (map fst (sessions s))"
  shows "fst (fetch r e s) = Returned (jsonResponse (JObj [(''success'', JBool True)]))
       \<and> (\<forall>k. sent (snd (fetch r e s)) k =
            (if k \<in> fst ` set (sessions s) \<and> readyState s k = OPEN
             then sent s k @ [JObj [(''type'', JStr ''track-removed''),
                                   (''trackName'', JStr (trackName b))]]
             else sent s k))"
  using assms
  by (simp add: fetch_remove_track routedD removeTrackHandler_def Let_def broadcast_sent put_def
      trackRemovedMessage_def split: option.splits)

text \<open>The name ghost is removed from a session to which no track was ever added.\<close>

theorem remove_track_always_broadcasts_witness:
  "routed (post ''/remove-track'' (Some ''Bearer tok'') (Some (exampleBody ''ghost''))) ''POST''
      ''/remove-track''
   \<and> trackNames exampleData = None
   \<and> distinct (map fst (sessions (exampleState (Some exampleData))))
   \<and> fst (fetch (post ''/remove-track'' (Some ''Bearer tok'') (Some (exampleBody ''ghost'')))
        otherEnv (exampleState (Some exampleData)))
       = Returned (jsonResponse (JObj [(''success'', JBool True)]))
   \<and> sent (snd (fetch (post ''/remove-track'' (Some ''Bearer tok'') (Some (exampleBody ''ghost'')))
        otherEnv (exampleState (Some exampleData)))) 0
       = [JObj [(''type'', JStr ''track-removed''), (''trackName'', JStr ''ghost'')]]
   \<and> sent (snd (fetch (post ''/remove-track'' (Some ''Bearer tok'') (Some (exampleBody ''ghost'')))
        otherEnv (exampleState (Some exampleData)))) 2 = []"
proof -
  let ?r = "post ''/remove-track'' (Some ''Bearer tok'') (Some (exampleBody ''ghost''))"
  let ?s = "exampleState (Some exampleData)"
  have h1: "routed ?r ''POST'' ''/remove-track''"
    by (simp add: routed_def post_def endsWith_def)
  have h2: "sessionData ?s = Some exampleData"
    and h3: "authorization ?r = Some (bearer (casterToken exampleData))"
    and h4: "payload ?r = Some (exampleBody ''ghost'')"
    and h5: "distinct (map fst (sessions ?s))"
    by (simp_all add: exampleState_def exampleData_def post_def bearer_def)
  have v: "trackNames exampleData = None" "trackName (exampleBody ''ghost'') = ''ghost''"
    "sessions ?s = [(0, ''viewer''), (1, ''caster''), (2, ''viewer'')]"
    "readyState ?s 0 = OPEN" "readyState ?s 2 = CLOSED" "sent ?s 0 = []" "sent ?s 2 = []"
    by (simp_all add: exampleState_def exampleData_def exampleBody_def)
  show ?thesis
    using h1 h5 remove_track_always_broadcasts [OF h1 h2 h3 h4 h5, of otherEnv]
    by (simp add: v)
qed

end
